theory Spec2Isabelle
  imports Main
begin

section \<open>GamePlayController: data model\<close>

text \<open>
  The controller of \<^verbatim>\<open>game-play.controller.ts\<close> sequences calls to services that are
  declared elsewhere. The services are parameters of the model (the record \<open>env\<close>
  below); what the controller sends and calls is recorded, in order, in a log.
\<close>

text \<open>
  Modelled from the spec: the enum \<^verbatim>\<open>ActionType\<close> is declared in
  \<^verbatim>\<open>action-data.ts\<close>; the controller itself only names \<^verbatim>\<open>ActionType.PASS\<close>.
\<close>

datatype ActionType = PLAY | PASS | EXCHANGE | OtherKind string

text \<open>A payload object as a list of properties; \<^verbatim>\<open>{}\<close> is the empty list.\<close>

type_synonym payload_object = "(string \<times> string) list"

text \<open>
  The request body. A field that is \<^verbatim>\<open>undefined\<close> (absent from the body) is \<open>None\<close>.
\<close>

record ActionData =
  type :: "ActionType option"
  payload :: "payload_object option"
  input :: "string option"

text \<open>
  Modelled from the spec: the class \<^verbatim>\<open>HttpException\<close> is declared in
  \<^verbatim>\<open>http-exception.ts\<close>; a failure carries a message and a status classification,
  and the constructor stores its two arguments. A plain \<^verbatim>\<open>Error\<close> has no status.
\<close>

record HttpException =
  message :: string
  status :: "nat option"

definition BAD_REQUEST :: nat where
  "BAD_REQUEST = 400"

record Message =
  content :: string
  senderId :: string
  gameId :: string
  isClickable :: "bool option"

record FeedbackMessage =
  fb_message :: "string option"
  fb_isClickable :: "bool option"

record FeedbackMessages =
  localPlayerFeedback :: FeedbackMessage
  opponentFeedback :: FeedbackMessage
  endGameFeedback :: "FeedbackMessage list"

text \<open>\<open>round_player_id\<close> is \<^verbatim>\<open>round.playerData.id\<close>.\<close>

record RoundData =
  round_player_id :: string

record GameUpdateData =
  round_data :: "RoundData option"
  update_info :: string

text \<open>What the controller does to the outside, in the order it does it.\<close>

datatype 'g event =
    EmitToSocket string Message
  | EmitToRoomMessage string Message
  | EmitToRoomUpdate string GameUpdateData
  | TriggerVirtualPlayerTurn GameUpdateData 'g
  | PlayActionCalled string string ActionData
  | ResetObjectivesCalled string string
  | DelayFor nat

record ('s, 'g) world =
  engine :: 's
  log :: "'g event list"

text \<open>
  The services and constants the controller imports. A call that can throw returns a
  sum, \<open>Inl\<close> the exception. \<open>afterDelay\<close> is what the rest of the server has done to
  the sessions when \<^verbatim>\<open>Delay.for\<close> resumes. The socket service's sends and the
  fire-and-forget \<^verbatim>\<open>triggerVirtualPlayerTurn\<close> are log entries.
\<close>

record ('s, 'g) env =
  playAction :: "'s \<Rightarrow> string \<Rightarrow> string \<Rightarrow> ActionData
    \<Rightarrow> 's \<times> (HttpException + (GameUpdateData option \<times> FeedbackMessages option))"
  isGameOver :: "'s \<Rightarrow> string \<Rightarrow> string \<Rightarrow> HttpException + bool"
  handleResetObjectives :: "'s \<Rightarrow> string \<Rightarrow> string \<Rightarrow> 's \<times> (HttpException + GameUpdateData)"
  getGame :: "'s \<Rightarrow> string \<Rightarrow> string \<Rightarrow> HttpException + 'g"
  getPlayerId :: "'g \<Rightarrow> string \<Rightarrow> bool \<Rightarrow> HttpException + string"
  afterDelay :: "nat \<Rightarrow> 's \<Rightarrow> 's"
  isIdVirtualPlayer :: "string \<Rightarrow> bool"
  INVALID_WORD_TIMEOUT :: nat
  IS_OPPONENT :: bool
  SYSTEM_ID :: string
  SYSTEM_ERROR_ID :: string
  COMMAND_IS_INVALID :: "string option \<Rightarrow> string"
  OPPONENT_PLAYED_INVALID_WORD :: string

section \<open>Strings\<close>

fun startsWith :: "string \<Rightarrow> string \<Rightarrow> bool" where
  "startsWith s [] = True"
| "startsWith [] (c # cs) = False"
| "startsWith (x # xs) (c # cs) = (x = c \<and> startsWith xs cs)"

text \<open>\<^verbatim>\<open>String.prototype.includes\<close>.\<close>

fun str_includes :: "string \<Rightarrow> string \<Rightarrow> bool" where
  "str_includes [] t = startsWith [] t"
| "str_includes (x # xs) t = (startsWith (x # xs) t \<or> str_includes xs t)"

text \<open>\<^verbatim>\<open>Array.prototype.join\<close>.\<close>

fun join :: "string \<Rightarrow> string list \<Rightarrow> string" where
  "join sep [] = []"
| "join sep [x] = x"
| "join sep (x # y # ys) = x @ sep @ join sep (y # ys)"

text \<open>Truthiness of an optional string: \<^verbatim>\<open>undefined\<close> and \<^verbatim>\<open>''\<close> are falsy.\<close>

fun truthy :: "string option \<Rightarrow> bool" where
  "truthy None = False"
| "truthy (Some s) = (s \<noteq> [])"

text \<open>The text of an optional string, \<^verbatim>\<open>message ?? ''\<close>.\<close>

fun text_of :: "string option \<Rightarrow> string" where
  "text_of None = []"
| "text_of (Some s) = s"

section \<open>The controller\<close>

definition isWordNotInDictionaryError :: "HttpException \<Rightarrow> bool" where
  "isWordNotInDictionaryError exception =
     str_includes (message exception) '' n'est pas dans le dictionnaire choisi.''"

definition emit :: "'g event \<Rightarrow> ('s, 'g) world \<Rightarrow> ('s, 'g) world" where
  "emit ev w = w\<lparr>log := log w @ [ev]\<rparr>"

text \<open>
  \<^verbatim>\<open>activeGameService.getGame(gameId, playerId).getPlayer(playerId, IS_OPPONENT).id\<close>
\<close>

definition opponentId :: "('s, 'g) env \<Rightarrow> 's \<Rightarrow> string \<Rightarrow> string \<Rightarrow> HttpException + string" where
  "opponentId env s gid pid =
     (case getGame env s gid pid of
        Inl e \<Rightarrow> Inl e
      | Inr game \<Rightarrow> getPlayerId env game pid (IS_OPPONENT env))"

definition gameUpdate ::
  "('s, 'g) env \<Rightarrow> string \<Rightarrow> GameUpdateData \<Rightarrow> ('s, 'g) world
     \<Rightarrow> ('s, 'g) world \<times> (HttpException + unit)" where
  "gameUpdate env gid data w =
     (let w1 = emit (EmitToRoomUpdate gid data) w in
      case round_data data of
        None \<Rightarrow> (w1, Inr ())
      | Some r \<Rightarrow>
          if isIdVirtualPlayer env (round_player_id r)
          then (case getGame env (engine w1) gid (round_player_id r) of
                  Inl e \<Rightarrow> (w1, Inl e)
                | Inr game \<Rightarrow> (emit (TriggerVirtualPlayerTurn data game) w1, Inr ()))
          else (w1, Inr ()))"

definition handleFeedback ::
  "('s, 'g) env \<Rightarrow> string \<Rightarrow> string \<Rightarrow> FeedbackMessages \<Rightarrow> ('s, 'g) world
     \<Rightarrow> ('s, 'g) world \<times> (HttpException + unit)" where
  "handleFeedback env gid pid feedback w =
     (let w1 =
        (if truthy (fb_message (localPlayerFeedback feedback))
         then emit (EmitToSocket pid
                \<lparr>content = text_of (fb_message (localPlayerFeedback feedback)),
                 senderId = SYSTEM_ID env, gameId = gid,
                 isClickable = fb_isClickable (localPlayerFeedback feedback)\<rparr>) w
         else w)
      in
      case (if truthy (fb_message (opponentFeedback feedback))
            then (case opponentId env (engine w1) gid pid of
                    Inl e \<Rightarrow> (w1, Inl e)
                  | Inr opp \<Rightarrow>
                      (emit (EmitToSocket opp
                         \<lparr>content = text_of (fb_message (opponentFeedback feedback)),
                          senderId = SYSTEM_ID env, gameId = gid,
                          isClickable = fb_isClickable (opponentFeedback feedback)\<rparr>) w1, Inr ()))
            else (w1, Inr ())) of
        (w2, Inl e) \<Rightarrow> (w2, Inl e)
      | (w2, Inr u) \<Rightarrow>
          (if length (endGameFeedback feedback) > 0
           then emit (EmitToRoomMessage gid
                  \<lparr>content = join ''<br>'' (map (\<lambda>m. text_of (fb_message m)) (endGameFeedback feedback)),
                   senderId = SYSTEM_ID env, gameId = gid, isClickable = None\<rparr>) w2
           else w2, Inr ()))"

definition handleError ::
  "('s, 'g) env \<Rightarrow> HttpException \<Rightarrow> string option \<Rightarrow> string \<Rightarrow> string \<Rightarrow> ('s, 'g) world
     \<Rightarrow> ('s, 'g) world \<times> (HttpException + unit)" where
  "handleError env exception inp pid gid w =
     (let notify = emit (EmitToSocket pid
            \<lparr>content = COMMAND_IS_INVALID env inp @ message exception,
             senderId = SYSTEM_ERROR_ID env, gameId = gid, isClickable = None\<rparr>)
      in
      if isWordNotInDictionaryError exception
      then
        (let w1 = emit (DelayFor (INVALID_WORD_TIMEOUT env))
                    (w\<lparr>engine := afterDelay env (INVALID_WORD_TIMEOUT env) (engine w)\<rparr>)
         in case isGameOver env (engine w1) gid pid of
              Inl e \<Rightarrow> (w1, Inl e)
            | Inr over \<Rightarrow>
                if over then (w1, Inr ())
                else
                  (case handleResetObjectives env (engine w1) gid pid of
                     (s2, Inl e) \<Rightarrow> (emit (ResetObjectivesCalled gid pid) (w1\<lparr>engine := s2\<rparr>), Inl e)
                   | (s2, Inr upd) \<Rightarrow>
                       (case gameUpdate env gid upd
                               (emit (ResetObjectivesCalled gid pid) (w1\<lparr>engine := s2\<rparr>)) of
                          (w3, Inl e) \<Rightarrow> (w3, Inl e)
                        | (w3, Inr u) \<Rightarrow>
                            (case opponentId env (engine w3) gid pid of
                               Inl e \<Rightarrow> (w3, Inl e)
                             | Inr opp \<Rightarrow>
                                 (notify (emit (EmitToSocket opp
                                    \<lparr>content = OPPONENT_PLAYED_INVALID_WORD env,
                                     senderId = SYSTEM_ID env, gameId = gid,
                                     isClickable = None\<rparr>) w3), Inr ())))))
      else (notify w, Inr ()))"

text \<open>
  The \<^verbatim>\<open>TypeError\<close> of reading \<^verbatim>\<open>.length\<close> of \<^verbatim>\<open>undefined\<close> (the wording is V8's).
\<close>

definition undefinedLengthError :: HttpException where
  "undefinedLengthError =
     \<lparr>message = ''Cannot read properties of undefined (reading 'length')'', status = None\<rparr>"

text \<open>The body of the \<^verbatim>\<open>try\<close> block of \<^verbatim>\<open>handlePlayAction\<close>.\<close>

definition tryBlock ::
  "('s, 'g) env \<Rightarrow> string \<Rightarrow> string \<Rightarrow> ActionData \<Rightarrow> ('s, 'g) world
     \<Rightarrow> ('s, 'g) world \<times> (HttpException + unit)" where
  "tryBlock env gid pid data w =
     (case input data of
        None \<Rightarrow> (w, Inl undefinedLengthError)
      | Some inp \<Rightarrow>
          (let w1 = (if length inp > 0
                     then emit (EmitToSocket pid
                            \<lparr>content = inp, senderId = pid, gameId = gid, isClickable = None\<rparr>) w
                     else w)
           in case playAction env (engine w1) gid pid data of
                (s1, Inl e) \<Rightarrow> (emit (PlayActionCalled gid pid data) (w1\<lparr>engine := s1\<rparr>), Inl e)
              | (s1, Inr (updateData, feedback)) \<Rightarrow>
                  (case (case updateData of
                           None \<Rightarrow> (emit (PlayActionCalled gid pid data) (w1\<lparr>engine := s1\<rparr>), Inr ())
                         | Some u \<Rightarrow> gameUpdate env gid u
                                      (emit (PlayActionCalled gid pid data) (w1\<lparr>engine := s1\<rparr>))) of
                     (w3, Inl e) \<Rightarrow> (w3, Inl e)
                   | (w3, Inr u) \<Rightarrow>
                       (case feedback of
                          None \<Rightarrow> (w3, Inr ())
                        | Some f \<Rightarrow> handleFeedback env gid pid f w3))))"

definition passAction :: ActionData where
  "passAction = \<lparr>type = Some PASS, payload = Some [], input = Some []\<rparr>"

text \<open>
  \<^verbatim>\<open>handlePlayAction\<close> calls itself on the synthetic PASS action, and nothing in the
  controller bounds the depth. The first argument is the number of nested calls
  allowed; \<open>None\<close> as outcome means that the call has not returned within them. The log
  holds what was done up to that point.
\<close>

fun handlePlayAction ::
  "nat \<Rightarrow> ('s, 'g) env \<Rightarrow> string \<Rightarrow> string \<Rightarrow> ActionData \<Rightarrow> ('s, 'g) world
     \<Rightarrow> ('s, 'g) world \<times> (HttpException + unit) option" where
  "handlePlayAction 0 env gid pid data w = (w, None)"
| "handlePlayAction (Suc n) env gid pid data w =
     (if type data = None
      then (w, Some (Inl \<lparr>message = ''type is required'', status = Some BAD_REQUEST\<rparr>))
      else if payload data = None
      then (w, Some (Inl \<lparr>message = ''payload is required'', status = Some BAD_REQUEST\<rparr>))
      else
        (case tryBlock env gid pid data w of
           (w1, Inr u) \<Rightarrow> (w1, Some (Inr ()))
         | (w1, Inl exception) \<Rightarrow>
             if isIdVirtualPlayer env pid
             then (w1, Some (Inl \<lparr>message = message exception, status = status exception\<rparr>))
             else
               (case handleError env exception (input data) pid gid w1 of
                  (w2, Inl e) \<Rightarrow> (w2, Some (Inl e))
                | (w2, Inr u) \<Rightarrow>
                    if isWordNotInDictionaryError exception
                    then (case isGameOver env (engine w2) gid pid of
                            Inl e \<Rightarrow> (w2, Some (Inl e))
                          | Inr over \<Rightarrow>
                              if over then (w2, Some (Inr ()))
                              else handlePlayAction n env gid pid passAction w2)
                    else (w2, Some (Inr ())))))"

section \<open>Reading the log\<close>

fun isPlayActionCall :: "'g event \<Rightarrow> bool" where
  "isPlayActionCall (PlayActionCalled gid pid data) = True"
| "isPlayActionCall ev = False"

text \<open>The steps that only the invalid-word recovery takes.\<close>

fun isRecoveryStep :: "'g event \<Rightarrow> bool" where
  "isRecoveryStep (DelayFor t) = True"
| "isRecoveryStep (ResetObjectivesCalled gid pid) = True"
| "isRecoveryStep ev = False"

fun isEmitToSocket :: "'g event \<Rightarrow> bool" where
  "isEmitToSocket (EmitToSocket sid msg) = True"
| "isEmitToSocket ev = False"

text \<open>A message to the socket \<open>pid\<close> whose sender is the system-error identity.\<close>

fun isErrorNoticeTo :: "('s, 'g) env \<Rightarrow> string \<Rightarrow> 'g event \<Rightarrow> bool" where
  "isErrorNoticeTo env pid (EmitToSocket sid msg) = (sid = pid \<and> senderId msg = SYSTEM_ERROR_ID env)"
| "isErrorNoticeTo env pid ev = False"

text \<open>The echo of the raw input, sent before the engine is called.\<close>

definition echo :: "string \<Rightarrow> string \<Rightarrow> string \<Rightarrow> 'g event list" where
  "echo gid pid inp =
     (if length inp > 0
      then [EmitToSocket pid \<lparr>content = inp, senderId = pid, gameId = gid, isClickable = None\<rparr>]
      else [])"

text \<open>
  What \<open>gameUpdate\<close> adds after the broadcast when the round's player is virtual and
  \<open>game\<close> is the session found for it.
\<close>

definition virtualTurn :: "('s, 'g) env \<Rightarrow> GameUpdateData \<Rightarrow> 'g \<Rightarrow> 'g event list" where
  "virtualTurn env data game =
     (case round_data data of
        None \<Rightarrow> []
      | Some r \<Rightarrow>
          if isIdVirtualPlayer env (round_player_id r)
          then [TriggerVirtualPlayerTurn data game] else [])"

section \<open>A concrete server\<close>

text \<open>
  A small environment to run the controller on. The state is the number of engine
  calls so far, \<open>None\<close> once the session is deleted. Every action but PASS is
  rejected as an unknown word; the player \<open>''bot''\<close> is virtual.
\<close>

definition invalidWord :: HttpException where
  "invalidWord =
     \<lparr>message = ''Le mot XYZ n'est pas dans le dictionnaire choisi.'', status = Some 403\<rparr>"

definition noGame :: HttpException where
  "noGame = \<lparr>message = ''No game found'', status = Some 404\<rparr>"

definition resetUpdate :: GameUpdateData where
  "resetUpdate = \<lparr>round_data = None, update_info = ''objectives reset''\<rparr>"

definition demoEnv :: "(nat option, string) env" where
  "demoEnv =
     \<lparr>playAction = (\<lambda>s gid pid data.
        (map_option Suc s,
         if type data = Some PASS then Inr (None, None) else Inl invalidWord)),
      isGameOver = (\<lambda>s gid pid. case s of None \<Rightarrow> Inl noGame | Some k \<Rightarrow> Inr False),
      handleResetObjectives = (\<lambda>s gid pid. (map_option Suc s, Inr resetUpdate)),
      getGame = (\<lambda>s gid pid. case s of None \<Rightarrow> Inl noGame | Some k \<Rightarrow> Inr gid),
      getPlayerId = (\<lambda>game pid opponent. Inr (if opponent then ''bob'' else pid)),
      afterDelay = (\<lambda>t s. s),
      isIdVirtualPlayer = (\<lambda>pid. pid = ''bot''),
      INVALID_WORD_TIMEOUT = 3000,
      IS_OPPONENT = True,
      SYSTEM_ID = ''system'',
      SYSTEM_ERROR_ID = ''system-error'',
      COMMAND_IS_INVALID = (\<lambda>inp. ''La commande '' @ (case inp of None \<Rightarrow> ''undefined'' | Some t \<Rightarrow> t)
                               @ '' est invalide : ''),
      OPPONENT_PLAYED_INVALID_WORD = ''Votre adversaire a joue un mot invalide.''\<rparr>"

text \<open>The same server when the game is over, and when the session is deleted during the delay.\<close>

definition finishedEnv :: "(nat option, string) env" where
  "finishedEnv = demoEnv\<lparr>isGameOver := (\<lambda>s gid pid. Inr True)\<rparr>"

definition deletingEnv :: "(nat option, string) env" where
  "deletingEnv = demoEnv\<lparr>afterDelay := (\<lambda>t s. None)\<rparr>"

definition demoAction :: ActionData where
  "demoAction = \<lparr>type = Some PLAY, payload = Some [(''word'', ''xyz'')], input = Some ''!placer h8h xyz''\<rparr>"

definition demoWorld :: "(nat option, string) world" where
  "demoWorld = \<lparr>engine = Some 0, log = []\<rparr>"

definition demoFeedback :: FeedbackMessages where
  "demoFeedback =
     \<lparr>localPlayerFeedback = \<lparr>fb_message = None, fb_isClickable = None\<rparr>,
      opponentFeedback = \<lparr>fb_message = None, fb_isClickable = None\<rparr>,
      endGameFeedback = [\<lparr>fb_message = Some ''A wins'', fb_isClickable = None\<rparr>,
                         \<lparr>fb_message = Some ''B loses'', fb_isClickable = None\<rparr>]\<rparr>"

section \<open>How the parts extend the log\<close>

lemma engine_emit [simp]: "engine (emit ev w) = engine w"
  by (simp add: emit_def)

lemma log_emit [simp]: "log (emit ev w) = log w @ [ev]"
  by (simp add: emit_def)

lemma tryBlock_engine_failure:
  assumes "input data = Some inp"
    and "playAction env (engine w) gid pid data = (s1, Inl e)"
  shows "tryBlock env gid pid data w =
           (w\<lparr>engine := s1, log := log w @ echo gid pid inp @ [PlayActionCalled gid pid data]\<rparr>, Inl e)"
  using assms by (simp add: tryBlock_def emit_def echo_def)

lemma tryBlock_absent_input:
  "input data = None \<Longrightarrow> tryBlock env gid pid data w = (w, Inl undefinedLengthError)"
  by (simp add: tryBlock_def)

lemma handleError_other:
  "\<not> isWordNotInDictionaryError e \<Longrightarrow>
   handleError env e inp pid gid w =
     (emit (EmitToSocket pid
        \<lparr>content = COMMAND_IS_INVALID env inp @ message e,
         senderId = SYSTEM_ERROR_ID env, gameId = gid, isClickable = None\<rparr>) w, Inr ())"
  by (simp add: handleError_def)

lemma handleError_game_over:
  assumes "isWordNotInDictionaryError e"
    and "isGameOver env (afterDelay env (INVALID_WORD_TIMEOUT env) (engine w)) gid pid = Inr True"
  shows "handleError env e inp pid gid w =
           (w\<lparr>engine := afterDelay env (INVALID_WORD_TIMEOUT env) (engine w),
              log := log w @ [DelayFor (INVALID_WORD_TIMEOUT env)]\<rparr>, Inr ())"
  using assms by (simp add: handleError_def emit_def)

lemma handleError_check_raises:
  assumes "isWordNotInDictionaryError e"
    and "isGameOver env (afterDelay env (INVALID_WORD_TIMEOUT env) (engine w)) gid pid = Inl e'"
  shows "handleError env e inp pid gid w =
           (w\<lparr>engine := afterDelay env (INVALID_WORD_TIMEOUT env) (engine w),
              log := log w @ [DelayFor (INVALID_WORD_TIMEOUT env)]\<rparr>, Inl e')"
  using assms by (simp add: handleError_def emit_def)

lemma gameUpdate_ok:
  assumes "\<forall>r. round_data upd = Some r \<and> isIdVirtualPlayer env (round_player_id r)
             \<longrightarrow> getGame env (engine w) gid (round_player_id r) = Inr game"
  shows "gameUpdate env gid upd w =
           (w\<lparr>log := log w @ EmitToRoomUpdate gid upd # virtualTurn env upd game\<rparr>, Inr ())"
  using assms by (auto simp add: gameUpdate_def emit_def virtualTurn_def Let_def split: option.splits)

lemma handleError_recovery:
  assumes "isWordNotInDictionaryError e"
    and "isGameOver env (afterDelay env (INVALID_WORD_TIMEOUT env) (engine w)) gid pid = Inr False"
    and "handleResetObjectives env (afterDelay env (INVALID_WORD_TIMEOUT env) (engine w)) gid pid
           = (s2, Inr upd)"
    and "\<forall>r. round_data upd = Some r \<and> isIdVirtualPlayer env (round_player_id r)
             \<longrightarrow> getGame env s2 gid (round_player_id r) = Inr game"
    and "opponentId env s2 gid pid = Inr opp"
  shows "handleError env e inp pid gid w =
           (w\<lparr>engine := s2,
              log := log w @ [DelayFor (INVALID_WORD_TIMEOUT env), ResetObjectivesCalled gid pid,
                              EmitToRoomUpdate gid upd] @ virtualTurn env upd game @
                [EmitToSocket opp
                   \<lparr>content = OPPONENT_PLAYED_INVALID_WORD env, senderId = SYSTEM_ID env,
                    gameId = gid, isClickable = None\<rparr>,
                 EmitToSocket pid
                   \<lparr>content = COMMAND_IS_INVALID env inp @ message e,
                    senderId = SYSTEM_ERROR_ID env, gameId = gid, isClickable = None\<rparr>]\<rparr>, Inr ())"
proof -
  let ?w2 = "emit (ResetObjectivesCalled gid pid)
               (emit (DelayFor (INVALID_WORD_TIMEOUT env))
                  (w\<lparr>engine := afterDelay env (INVALID_WORD_TIMEOUT env) (engine w)\<rparr>)\<lparr>engine := s2\<rparr>)"
  have eng: "engine ?w2 = s2" by (simp add: emit_def)
  have gu: "gameUpdate env gid upd ?w2 =
              (?w2\<lparr>log := log ?w2 @ EmitToRoomUpdate gid upd # virtualTurn env upd game\<rparr>, Inr ())"
    by (rule gameUpdate_ok) (use assms(4) eng in simp)
  show ?thesis
    using assms(1,2,3,5) by (simp add: handleError_def Let_def gu)
qed

lemma gameUpdate_quiet:
  assumes "gameUpdate env gid upd w = (w', r)"
  shows "\<exists>tr. log w' = log w @ tr \<and> filter isPlayActionCall tr = []
           \<and> filter isRecoveryStep tr = []"
  using assms
  by (auto simp add: gameUpdate_def Let_def split: option.splits sum.splits if_splits)

lemma handleFeedback_quiet:
  assumes "handleFeedback env gid pid fb w = (w', r)"
  shows "\<exists>tr. log w' = log w @ tr \<and> filter isPlayActionCall tr = []
           \<and> filter isRecoveryStep tr = []"
  using assms
  by (auto simp add: handleFeedback_def Let_def split: sum.splits if_splits)

lemma tryBlock_log:
  assumes "tryBlock env gid pid data w = (w', r)" and "input data = Some inp"
  shows "\<exists>tr. log w' = log w @ echo gid pid inp @ PlayActionCalled gid pid data # tr
           \<and> filter isPlayActionCall tr = [] \<and> filter isRecoveryStep tr = []"
proof -
  let ?w1 = "w\<lparr>log := log w @ echo gid pid inp\<rparr>"
  obtain s1 out where pa: "playAction env (engine w) gid pid data = (s1, out)"
    by (cases "playAction env (engine w) gid pid data")
  let ?w2 = "w\<lparr>engine := s1, log := log w @ echo gid pid inp @ [PlayActionCalled gid pid data]\<rparr>"
  show ?thesis
  proof (cases out)
    case (Inl e)
    with assms pa have "w' = ?w2"
      by (auto simp add: tryBlock_def emit_def echo_def)
    then show ?thesis by simp
  next
    case (Inr res)
    obtain updateData feedback where res: "res = (updateData, feedback)"
      by (cases res)
    obtain w3 r3 where step:
      "(case updateData of None \<Rightarrow> (?w2, Inr ()) | Some u \<Rightarrow> gameUpdate env gid u ?w2) = (w3, r3)"
      by (cases "case updateData of None \<Rightarrow> (?w2, Inr ()) | Some u \<Rightarrow> gameUpdate env gid u ?w2")
    then obtain tr3 where tr3: "log w3 = log ?w2 @ tr3" "filter isPlayActionCall tr3 = []"
        "filter isRecoveryStep tr3 = []"
      by (cases updateData) (auto dest: gameUpdate_quiet)
    have unfolded: "tryBlock env gid pid data w =
        (case r3 of Inl e \<Rightarrow> (w3, Inl e)
         | Inr u \<Rightarrow> (case feedback of None \<Rightarrow> (w3, Inr ())
                    | Some f \<Rightarrow> handleFeedback env gid pid f w3))"
      using assms(2) pa Inr res step
      by (cases "inp = []"; cases updateData) (simp_all add: tryBlock_def emit_def echo_def Let_def)
    have "\<exists>tr4. log w' = log w3 @ tr4 \<and> filter isPlayActionCall tr4 = []
            \<and> filter isRecoveryStep tr4 = []"
      using assms(1) unfolded
      by (cases r3; cases feedback) (auto dest: handleFeedback_quiet)
    then obtain tr4 where tr4: "log w' = log w3 @ tr4" "filter isPlayActionCall tr4 = []"
        "filter isRecoveryStep tr4 = []"
      by blast
    have "log w' = log w @ echo gid pid inp @ PlayActionCalled gid pid data # (tr3 @ tr4)"
      using tr3(1) tr4(1) by simp
    moreover have "filter isPlayActionCall (tr3 @ tr4) = []" "filter isRecoveryStep (tr3 @ tr4) = []"
      using tr3 tr4 by simp_all
    ultimately show ?thesis by blast
  qed
qed

lemma handleError_extends:
  assumes "handleError env e inp pid gid w = (w', r)"
  shows "\<exists>tr. log w' = log w @ tr"
proof (cases "isWordNotInDictionaryError e")
  case False
  with assms show ?thesis by (auto simp add: handleError_other)
next
  case True
  let ?w1 = "emit (DelayFor (INVALID_WORD_TIMEOUT env))
               (w\<lparr>engine := afterDelay env (INVALID_WORD_TIMEOUT env) (engine w)\<rparr>)"
  show ?thesis
  proof (cases "isGameOver env (engine ?w1) gid pid")
    case (Inl e1)
    with True assms show ?thesis by (auto simp add: handleError_def Let_def)
  next
    case (Inr over)
    show ?thesis
    proof (cases over)
      case True
      with \<open>isWordNotInDictionaryError e\<close> Inr assms show ?thesis
        by (auto simp add: handleError_def Let_def)
    next
      case False
      obtain s2 out where rs: "handleResetObjectives env (engine ?w1) gid pid = (s2, out)"
        by (cases "handleResetObjectives env (engine ?w1) gid pid")
      show ?thesis
      proof (cases out)
        case (Inl e2)
        with \<open>isWordNotInDictionaryError e\<close> Inr False rs assms show ?thesis
          by (auto simp add: handleError_def Let_def)
      next
        case (Inr upd)
        let ?w2 = "emit (ResetObjectivesCalled gid pid) (?w1\<lparr>engine := s2\<rparr>)"
        obtain w3 r3 where gu: "gameUpdate env gid upd ?w2 = (w3, r3)"
          by (cases "gameUpdate env gid upd ?w2")
        then obtain tr3 where tr3: "log w3 = log ?w2 @ tr3"
          by (blast dest: gameUpdate_quiet)
        from \<open>isWordNotInDictionaryError e\<close> \<open>isGameOver env (engine ?w1) gid pid = Inr over\<close>
          False rs Inr gu assms
        have "\<exists>tr4. log w' = log w3 @ tr4"
          by (cases r3; cases "opponentId env (engine w3) gid pid")
            (auto simp add: handleError_def Let_def)
        with tr3 show ?thesis by auto
      qed
    qed
  qed
qed

lemma undefinedLengthError_other: "\<not> isWordNotInDictionaryError undefinedLengthError"
  by (simp add: isWordNotInDictionaryError_def undefinedLengthError_def)

lemma tryBlock_extends:
  assumes "tryBlock env gid pid data w = (w', r)"
  shows "\<exists>tr. log w' = log w @ tr"
proof (cases "input data")
  case None
  with assms show ?thesis by (simp add: tryBlock_absent_input)
next
  case (Some inp)
  from tryBlock_log [OF assms Some] show ?thesis by auto
qed

lemma handlePlayAction_extends:
  "\<exists>tr. log (fst (handlePlayAction n env gid pid data w)) = log w @ tr"
proof (induction n arbitrary: data w)
  case 0
  show ?case by simp
next
  case (Suc n)
  obtain w1 r1 where tb: "tryBlock env gid pid data w = (w1, r1)"
    by (cases "tryBlock env gid pid data w")
  then obtain tr1 where tr1: "log w1 = log w @ tr1"
    by (blast dest: tryBlock_extends)
  show ?case
  proof (cases r1)
    case (Inr u)
    with tb tr1 show ?thesis by auto
  next
    case (Inl e)
    obtain w2 r2 where he: "handleError env e (input data) pid gid w1 = (w2, r2)"
      by (cases "handleError env e (input data) pid gid w1")
    then obtain tr2 where tr2: "log w2 = log w1 @ tr2"
      by (blast dest: handleError_extends)
    from Suc.IH [of passAction w2] obtain tr3
      where tr3: "log (fst (handlePlayAction n env gid pid passAction w2)) = log w2 @ tr3"
      by blast
    from tb Inl he tr1 tr2 tr3 show ?thesis
      by (auto split: sum.splits)
  qed
qed


lemma virtualTurn_filters [simp]:
  "filter isEmitToSocket (virtualTurn env upd game) = []"
  by (simp add: virtualTurn_def split: option.splits)

lemma invalidWord_rejected: "isWordNotInDictionaryError invalidWord"
  by (simp add: isWordNotInDictionaryError_def invalidWord_def)

lemma demo_run:
  "handlePlayAction (Suc (Suc 0)) demoEnv ''g1'' ''alice'' demoAction demoWorld =
    (\<lparr>engine = Some 3,
      log = [EmitToSocket ''alice''
               \<lparr>content = ''!placer h8h xyz'', senderId = ''alice'', gameId = ''g1'',
                isClickable = None\<rparr>,
             PlayActionCalled ''g1'' ''alice'' demoAction,
             DelayFor 3000,
             ResetObjectivesCalled ''g1'' ''alice'',
             EmitToRoomUpdate ''g1'' resetUpdate,
             EmitToSocket ''bob''
               \<lparr>content = ''Votre adversaire a joue un mot invalide.'', senderId = ''system'',
                gameId = ''g1'', isClickable = None\<rparr>,
             EmitToSocket ''alice''
               \<lparr>content = ''La commande !placer h8h xyz est invalide : '' @ message invalidWord,
                senderId = ''system-error'', gameId = ''g1'', isClickable = None\<rparr>,
             PlayActionCalled ''g1'' ''alice'' passAction]\<rparr>,
     Some (Inr ()))"
  using invalidWord_rejected
  by (simp add: tryBlock_def handleError_def gameUpdate_def opponentId_def
        emit_def demoEnv_def demoAction_def demoWorld_def passAction_def resetUpdate_def Let_def)


section \<open>The claims\<close>



text \<open>
  C2, as the controller has it. For a word-not-recognized failure of a human player's
  action with the game not over, the failure handling returns normally and adds to the
  log, in this order and nothing else: the delay, the objectives reset, the broadcast
  of its update to the room (and the virtual player's trigger if the update names
  one), the fixed-text notification to the opponent, and last one message to the
  acting player, from the system-error sender, made of the fixed prefix naming the raw
  input and the failure's message. So the acting player is sent that message once,
  after the broadcast and after the opponent's notification, and is not sent a second,
  invalid-word-specific notification: the two messages named are the only ones sent to
  single sockets.
\<close>

theorem invalid_word_one_error_notice:
  assumes "isWordNotInDictionaryError e"
    and "isGameOver env (afterDelay env (INVALID_WORD_TIMEOUT env) (engine w)) gid pid = Inr False"
    and "handleResetObjectives env (afterDelay env (INVALID_WORD_TIMEOUT env) (engine w)) gid pid
           = (s2, Inr upd)"
    and "\<forall>r. round_data upd = Some r \<and> isIdVirtualPlayer env (round_player_id r)
             \<longrightarrow> getGame env s2 gid (round_player_id r) = Inr game"
    and "opponentId env s2 gid pid = Inr opp"
  shows "handleError env e inp pid gid w =
           (w\<lparr>engine := s2,
              log := log w @
                [DelayFor (INVALID_WORD_TIMEOUT env), ResetObjectivesCalled gid pid,
                 EmitToRoomUpdate gid upd] @
                virtualTurn env upd game @
                [EmitToSocket opp
                   \<lparr>content = OPPONENT_PLAYED_INVALID_WORD env, senderId = SYSTEM_ID env,
                    gameId = gid, isClickable = None\<rparr>,
                 EmitToSocket pid
                   \<lparr>content = COMMAND_IS_INVALID env inp @ message e,
                    senderId = SYSTEM_ERROR_ID env, gameId = gid, isClickable = None\<rparr>]\<rparr>,
            Inr ())
       \<and> snd (handleError env e inp pid gid w) = Inr ()
       \<and> filter isEmitToSocket (drop (length (log w)) (log (fst (handleError env e inp pid gid w))))
           = [EmitToSocket opp
                \<lparr>content = OPPONENT_PLAYED_INVALID_WORD env, senderId = SYSTEM_ID env,
                 gameId = gid, isClickable = None\<rparr>,
              EmitToSocket pid
                \<lparr>content = COMMAND_IS_INVALID env inp @ message e,
                 senderId = SYSTEM_ERROR_ID env, gameId = gid, isClickable = None\<rparr>]"
proof -
  note run = handleError_recovery [OF assms, of inp]
  have "snd (handleError env e inp pid gid w) = Inr ()"
    by (simp add: run)
  moreover have "filter isEmitToSocket
      (drop (length (log w)) (log (fst (handleError env e inp pid gid w)))) =
      [EmitToSocket opp
         \<lparr>content = OPPONENT_PLAYED_INVALID_WORD env, senderId = SYSTEM_ID env,
          gameId = gid, isClickable = None\<rparr>,
       EmitToSocket pid
         \<lparr>content = COMMAND_IS_INVALID env inp @ message e,
          senderId = SYSTEM_ERROR_ID env, gameId = gid, isClickable = None\<rparr>]"
    by (simp add: run)
  ultimately show ?thesis
    using run by blast
qed

theorem invalid_word_one_error_notice_witness:
  "handleError demoEnv invalidWord (Some ''xyz'') ''alice'' ''g1'' demoWorld =
     (demoWorld\<lparr>engine := Some 1,
        log := log demoWorld @
          [DelayFor (INVALID_WORD_TIMEOUT demoEnv), ResetObjectivesCalled ''g1'' ''alice'',
           EmitToRoomUpdate ''g1'' resetUpdate] @
          virtualTurn demoEnv resetUpdate ''g1'' @
          [EmitToSocket ''bob''
             \<lparr>content = OPPONENT_PLAYED_INVALID_WORD demoEnv, senderId = SYSTEM_ID demoEnv,
              gameId = ''g1'', isClickable = None\<rparr>,
           EmitToSocket ''alice''
             \<lparr>content = COMMAND_IS_INVALID demoEnv (Some ''xyz'') @ message invalidWord,
              senderId = SYSTEM_ERROR_ID demoEnv, gameId = ''g1'', isClickable = None\<rparr>]\<rparr>,
      Inr ())
   \<and> snd (handleError demoEnv invalidWord (Some ''xyz'') ''alice'' ''g1'' demoWorld) = Inr ()
   \<and> filter isEmitToSocket (drop (length (log demoWorld))
        (log (fst (handleError demoEnv invalidWord (Some ''xyz'') ''alice'' ''g1'' demoWorld))))
       = [EmitToSocket ''bob''
            \<lparr>content = OPPONENT_PLAYED_INVALID_WORD demoEnv, senderId = SYSTEM_ID demoEnv,
             gameId = ''g1'', isClickable = None\<rparr>,
          EmitToSocket ''alice''
            \<lparr>content = COMMAND_IS_INVALID demoEnv (Some ''xyz'') @ message invalidWord,
             senderId = SYSTEM_ERROR_ID demoEnv, gameId = ''g1'', isClickable = None\<rparr>]"
proof -
  have h2: "isGameOver demoEnv
              (afterDelay demoEnv (INVALID_WORD_TIMEOUT demoEnv) (engine demoWorld))
              ''g1'' ''alice'' = Inr False"
    by (simp add: demoEnv_def demoWorld_def)
  have h3: "handleResetObjectives demoEnv
              (afterDelay demoEnv (INVALID_WORD_TIMEOUT demoEnv) (engine demoWorld))
              ''g1'' ''alice'' = (Some 1, Inr resetUpdate)"
    by (simp add: demoEnv_def demoWorld_def)
  have h4: "\<forall>r. round_data resetUpdate = Some r \<and> isIdVirtualPlayer demoEnv (round_player_id r)
              \<longrightarrow> getGame demoEnv (Some 1) ''g1'' (round_player_id r) = Inr ''g1''"
    by (simp add: resetUpdate_def)
  have h5: "opponentId demoEnv (Some 1) ''g1'' ''alice'' = Inr ''bob''"
    by (simp add: opponentId_def demoEnv_def)
  show ?thesis
    by (rule invalid_word_one_error_notice [OF invalidWord_rejected h2 h3 h4 h5])
qed

text \<open>
  C2, as stated, fails: on the concrete server the human player alice plays a word that
  is rejected as unknown, the whole dispatch returns, and its log holds one message
  from the system-error sender to alice, not two.
\<close>

theorem two_error_notices_counterexample:
  "\<not> isIdVirtualPlayer demoEnv ''alice''
   \<and> playAction demoEnv (engine demoWorld) ''g1'' ''alice'' demoAction = (Some 1, Inl invalidWord)
   \<and> isWordNotInDictionaryError invalidWord
   \<and> snd (handlePlayAction (Suc (Suc 0)) demoEnv ''g1'' ''alice'' demoAction demoWorld)
       = Some (Inr ())
   \<and> length (filter (isErrorNoticeTo demoEnv ''alice'')
        (log (fst (handlePlayAction (Suc (Suc 0)) demoEnv ''g1'' ''alice'' demoAction demoWorld))))
       = 1"
  unfolding demo_run using invalidWord_rejected
  by (simp add: demoEnv_def demoAction_def demoWorld_def)

text \<open>
  C3. When the engine fails on an action of a virtual player, the dispatch throws a
  failure with the same message and the same status, and the log and the engine state
  are those at the failure: the handling of the failure sends no message, waits for no
  delay, resets no objectives and resubmits nothing.
\<close>

theorem virtual_player_failure_rethrown:
  assumes "type data = Some kind" and "payload data = Some pl" and "input data = Some inp"
    and "isIdVirtualPlayer env pid"
    and "playAction env (engine w) gid pid data = (s1, Inl e)"
  shows "handlePlayAction (Suc n) env gid pid data w =
           (w\<lparr>engine := s1, log := log w @ echo gid pid inp @ [PlayActionCalled gid pid data]\<rparr>,
            Some (Inl \<lparr>message = message e, status = status e\<rparr>))"
  using assms by (simp add: tryBlock_engine_failure)

theorem virtual_player_failure_rethrown_witness:
  "handlePlayAction (Suc 0) demoEnv ''g1'' ''bot'' demoAction demoWorld =
     (demoWorld\<lparr>engine := Some 1,
        log := log demoWorld @ echo ''g1'' ''bot'' ''!placer h8h xyz'' @
                 [PlayActionCalled ''g1'' ''bot'' demoAction]\<rparr>,
      Some (Inl \<lparr>message = message invalidWord, status = status invalidWord\<rparr>))"
proof -
  have h1: "type demoAction = Some PLAY" and h2: "payload demoAction = Some [(''word'', ''xyz'')]"
    and h3: "input demoAction = Some ''!placer h8h xyz''"
    by (simp_all add: demoAction_def)
  have h4: "isIdVirtualPlayer demoEnv ''bot''"
    by (simp add: demoEnv_def)
  have h5: "playAction demoEnv (engine demoWorld) ''g1'' ''bot'' demoAction
              = (Some 1, Inl invalidWord)"
    by (simp add: demoEnv_def demoWorld_def demoAction_def)
  show ?thesis
    by (rule virtual_player_failure_rethrown [OF h1 h2 h3 h4 h5])
qed

text \<open>
  C4. When the kind or the payload of an incoming action is absent, the dispatch throws
  a failure of status 400 Bad Request, and neither the log nor the engine state
  changes: the engine is not called, nothing is echoed and nobody is notified.
\<close>

theorem missing_kind_or_payload_rejected:
  assumes "type data = None \<or> payload data = None"
  shows "handlePlayAction (Suc n) env gid pid data w =
           (w, Some (Inl \<lparr>message = (if type data = None then ''type is required''
                                       else ''payload is required''),
                           status = Some BAD_REQUEST\<rparr>))"
  using assms by auto

theorem missing_kind_or_payload_rejected_witness:
  "handlePlayAction (Suc 0) demoEnv ''g1'' ''alice'' (demoAction\<lparr>payload := None\<rparr>) demoWorld =
     (demoWorld, Some (Inl \<lparr>message = ''payload is required'', status = Some 400\<rparr>))"
  using missing_kind_or_payload_rejected
          [of "demoAction\<lparr>payload := None\<rparr>" 0 demoEnv "''g1''" "''alice''" demoWorld]
  by (simp add: demoAction_def BAD_REQUEST_def)

text \<open>
  C5. When a human player's action fails with the word-not-recognized failure and the
  game-over check after the delay returns true, the dispatch returns normally and its
  log holds the echo, the engine call and the delay only: no objectives reset, no
  broadcast of an update, no notification of the opponent, no PASS action.
\<close>

theorem game_over_stops_recovery:
  assumes "type data = Some kind" and "payload data = Some pl" and "input data = Some inp"
    and "\<not> isIdVirtualPlayer env pid"
    and "playAction env (engine w) gid pid data = (s1, Inl e)"
    and "isWordNotInDictionaryError e"
    and "isGameOver env (afterDelay env (INVALID_WORD_TIMEOUT env) s1) gid pid = Inr True"
  shows "handlePlayAction (Suc n) env gid pid data w =
           (w\<lparr>engine := afterDelay env (INVALID_WORD_TIMEOUT env) s1,
              log := log w @ echo gid pid inp @
                       [PlayActionCalled gid pid data, DelayFor (INVALID_WORD_TIMEOUT env)]\<rparr>,
            Some (Inr ()))"
  using assms by (simp add: tryBlock_engine_failure handleError_game_over)

theorem game_over_stops_recovery_witness:
  "handlePlayAction (Suc 0) finishedEnv ''g1'' ''alice'' demoAction demoWorld =
     (demoWorld\<lparr>engine := afterDelay finishedEnv (INVALID_WORD_TIMEOUT finishedEnv) (Some 1),
        log := log demoWorld @ echo ''g1'' ''alice'' ''!placer h8h xyz'' @
                 [PlayActionCalled ''g1'' ''alice'' demoAction,
                  DelayFor (INVALID_WORD_TIMEOUT finishedEnv)]\<rparr>,
      Some (Inr ()))"
proof -
  have h1: "type demoAction = Some PLAY" and h2: "payload demoAction = Some [(''word'', ''xyz'')]"
    and h3: "input demoAction = Some ''!placer h8h xyz''"
    by (simp_all add: demoAction_def)
  have h4: "\<not> isIdVirtualPlayer finishedEnv ''alice''"
    by (simp add: finishedEnv_def demoEnv_def)
  have h5: "playAction finishedEnv (engine demoWorld) ''g1'' ''alice'' demoAction
              = (Some 1, Inl invalidWord)"
    by (simp add: finishedEnv_def demoEnv_def demoWorld_def demoAction_def)
  have h7: "isGameOver finishedEnv
              (afterDelay finishedEnv (INVALID_WORD_TIMEOUT finishedEnv) (Some 1))
              ''g1'' ''alice'' = Inr True"
    by (simp add: finishedEnv_def)
  show ?thesis
    by (rule game_over_stops_recovery [OF h1 h2 h3 h4 h5 invalidWord_rejected h7])
qed

text \<open>
  C6, as the controller has it. When the game-over check made after the delay itself
  throws, as the lookup of a deleted session does, the controller does not catch it:
  the dispatch throws that failure to its caller. Nothing is done after the delay: no
  objectives reset, no notification, no PASS action.
\<close>

theorem game_over_check_failure_propagates:
  assumes "type data = Some kind" and "payload data = Some pl" and "input data = Some inp"
    and "\<not> isIdVirtualPlayer env pid"
    and "playAction env (engine w) gid pid data = (s1, Inl e)"
    and "isWordNotInDictionaryError e"
    and "isGameOver env (afterDelay env (INVALID_WORD_TIMEOUT env) s1) gid pid = Inl e'"
  shows "handlePlayAction (Suc n) env gid pid data w =
           (w\<lparr>engine := afterDelay env (INVALID_WORD_TIMEOUT env) s1,
              log := log w @ echo gid pid inp @
                       [PlayActionCalled gid pid data, DelayFor (INVALID_WORD_TIMEOUT env)]\<rparr>,
            Some (Inl e'))"
  using assms by (simp add: tryBlock_engine_failure handleError_check_raises)

theorem game_over_check_failure_propagates_witness:
  "handlePlayAction (Suc 0) deletingEnv ''g1'' ''alice'' demoAction demoWorld =
     (demoWorld\<lparr>engine := afterDelay deletingEnv (INVALID_WORD_TIMEOUT deletingEnv) (Some 1),
        log := log demoWorld @ echo ''g1'' ''alice'' ''!placer h8h xyz'' @
                 [PlayActionCalled ''g1'' ''alice'' demoAction,
                  DelayFor (INVALID_WORD_TIMEOUT deletingEnv)]\<rparr>,
      Some (Inl noGame))"
proof -
  have h1: "type demoAction = Some PLAY" and h2: "payload demoAction = Some [(''word'', ''xyz'')]"
    and h3: "input demoAction = Some ''!placer h8h xyz''"
    by (simp_all add: demoAction_def)
  have h4: "\<not> isIdVirtualPlayer deletingEnv ''alice''"
    by (simp add: deletingEnv_def demoEnv_def)
  have h5: "playAction deletingEnv (engine demoWorld) ''g1'' ''alice'' demoAction
              = (Some 1, Inl invalidWord)"
    by (simp add: deletingEnv_def demoEnv_def demoWorld_def demoAction_def)
  have h7: "isGameOver deletingEnv
              (afterDelay deletingEnv (INVALID_WORD_TIMEOUT deletingEnv) (Some 1))
              ''g1'' ''alice'' = Inl noGame"
    by (simp add: deletingEnv_def demoEnv_def)
  show ?thesis
    by (rule game_over_check_failure_propagates [OF h1 h2 h3 h4 h5 invalidWord_rejected h7])
qed

text \<open>
  C6, as stated, fails: on the server that deletes the session during the delay, the
  game-over check throws, and the dispatch of alice's rejected word throws that failure
  instead of returning.
\<close>

theorem deleted_session_counterexample:
  "\<not> isIdVirtualPlayer deletingEnv ''alice''
   \<and> playAction deletingEnv (engine demoWorld) ''g1'' ''alice'' demoAction
       = (Some 1, Inl invalidWord)
   \<and> isWordNotInDictionaryError invalidWord
   \<and> afterDelay deletingEnv (INVALID_WORD_TIMEOUT deletingEnv) (Some 1) = None
   \<and> isGameOver deletingEnv None ''g1'' ''alice'' = Inl noGame
   \<and> snd (handlePlayAction (Suc (Suc 0)) deletingEnv ''g1'' ''alice'' demoAction demoWorld)
       = Some (Inl noGame)"
proof -
  have "snd (handlePlayAction (Suc (Suc 0)) deletingEnv ''g1'' ''alice'' demoAction demoWorld)
          = Some (Inl noGame)"
    using invalidWord_rejected
    by (simp add: tryBlock_def handleError_def emit_def
          deletingEnv_def demoEnv_def demoAction_def demoWorld_def Let_def)
  then show ?thesis
    using invalidWord_rejected
    by (simp add: deletingEnv_def demoEnv_def demoAction_def demoWorld_def)
qed

text \<open>
  C7. For an action with kind and payload whose raw input is not empty, the first
  thing the dispatch adds to the log is the message to the player's socket with the raw
  input as content and the player as sender; the engine call is next, and every
  broadcast, feedback or notification comes after it. When the raw input is empty, the
  first thing added is the engine call: nothing is echoed.
\<close>

theorem echo_precedes_engine_call:
  assumes "type data = Some kind" and "payload data = Some pl" and "input data = Some inp"
  shows "\<exists>tr. log (fst (handlePlayAction (Suc n) env gid pid data w)) =
           log w @
           (if inp \<noteq> []
            then [EmitToSocket pid \<lparr>content = inp, senderId = pid, gameId = gid,
                                     isClickable = None\<rparr>]
            else []) @
           PlayActionCalled gid pid data # tr"
proof -
  obtain w1 r1 where tb: "tryBlock env gid pid data w = (w1, r1)"
    by (cases "tryBlock env gid pid data w")
  from tryBlock_log [OF tb assms(3)] obtain tr1
    where tr1: "log w1 = log w @ echo gid pid inp @ PlayActionCalled gid pid data # tr1"
    by blast
  have "\<exists>tr2. log (fst (handlePlayAction (Suc n) env gid pid data w)) = log w1 @ tr2"
  proof (cases r1)
    case (Inr u)
    with tb assms show ?thesis by simp
  next
    case (Inl e)
    obtain w2 r2 where he: "handleError env e (input data) pid gid w1 = (w2, r2)"
      by (cases "handleError env e (input data) pid gid w1")
    then obtain tr2 where tr2: "log w2 = log w1 @ tr2"
      by (blast dest: handleError_extends)
    from handlePlayAction_extends [of n env gid pid passAction w2] obtain tr3
      where tr3: "log (fst (handlePlayAction n env gid pid passAction w2)) = log w2 @ tr3"
      by blast
    from tb Inl he tr2 tr3 assms show ?thesis
      by (auto split: sum.splits)
  qed
  then obtain tr2 where
    "log (fst (handlePlayAction (Suc n) env gid pid data w)) = log w1 @ tr2"
    by blast
  with tr1 have "log (fst (handlePlayAction (Suc n) env gid pid data w)) =
      log w @ echo gid pid inp @ PlayActionCalled gid pid data # (tr1 @ tr2)"
    by simp
  then show ?thesis
    by (auto simp add: echo_def)
qed

theorem echo_precedes_engine_call_witness:
  "(\<exists>tr. log (fst (handlePlayAction (Suc 0) demoEnv ''g1'' ''alice'' demoAction demoWorld)) =
      log demoWorld @
      EmitToSocket ''alice'' \<lparr>content = ''!placer h8h xyz'', senderId = ''alice'',
                               gameId = ''g1'', isClickable = None\<rparr> #
      PlayActionCalled ''g1'' ''alice'' demoAction # tr)
   \<and> (\<exists>tr. log (fst (handlePlayAction (Suc 0) demoEnv ''g1'' ''alice'' passAction demoWorld)) =
      log demoWorld @ PlayActionCalled ''g1'' ''alice'' passAction # tr)"
proof -
  have h1: "type demoAction = Some PLAY" and h2: "payload demoAction = Some [(''word'', ''xyz'')]"
    and h3: "input demoAction = Some ''!placer h8h xyz''"
    by (simp_all add: demoAction_def)
  have p1: "type passAction = Some PASS" and p2: "payload passAction = Some []"
    and p3: "input passAction = Some []"
    by (simp_all add: passAction_def)
  from echo_precedes_engine_call [OF h1 h2 h3, of 0 demoEnv "''g1''" "''alice''" demoWorld]
    echo_precedes_engine_call [OF p1 p2 p3, of 0 demoEnv "''g1''" "''alice''" demoWorld]
  show ?thesis
    by simp
qed

text \<open>
  C8. For a feedback bundle whose local and opponent messages are absent and whose
  end-game feedback is the two items 'A wins' and 'B loses', the routing of the
  feedback adds one entry to the log: the broadcast to the room of a message with
  content 'A wins<br>B loses' from the system sender. No message goes to a single socket.
\<close>

theorem end_game_feedback_broadcast_once:
  assumes "fb_message (localPlayerFeedback feedback) = None"
    and "fb_message (opponentFeedback feedback) = None"
    and "map fb_message (endGameFeedback feedback) = [Some ''A wins'', Some ''B loses'']"
  shows "handleFeedback env gid pid feedback w =
           (w\<lparr>log := log w @
               [EmitToRoomMessage gid
                  \<lparr>content = ''A wins<br>B loses'', senderId = SYSTEM_ID env, gameId = gid,
                   isClickable = None\<rparr>]\<rparr>, Inr ())"
proof -
  from assms(3) obtain m1 m2 where ms: "endGameFeedback feedback = [m1, m2]"
      "fb_message m1 = Some ''A wins''" "fb_message m2 = Some ''B loses''"
    by auto
  with assms(1,2) show ?thesis
    by (simp add: handleFeedback_def emit_def)
qed

theorem end_game_feedback_broadcast_once_witness:
  "handleFeedback demoEnv ''g1'' ''alice'' demoFeedback demoWorld =
     (demoWorld\<lparr>log := log demoWorld @
        [EmitToRoomMessage ''g1''
           \<lparr>content = ''A wins<br>B loses'', senderId = SYSTEM_ID demoEnv, gameId = ''g1'',
            isClickable = None\<rparr>]\<rparr>, Inr ())"
proof -
  have h1: "fb_message (localPlayerFeedback demoFeedback) = None"
    and h2: "fb_message (opponentFeedback demoFeedback) = None"
    and h3: "map fb_message (endGameFeedback demoFeedback) = [Some ''A wins'', Some ''B loses'']"
    by (simp_all add: demoFeedback_def)
  show ?thesis
    by (rule end_game_feedback_broadcast_once [OF h1 h2 h3])
qed

text \<open>
  C9. When a human player's action fails with the word-not-recognized failure and the
  game-over check after the delay returns true, the only message the dispatch sends to
  a socket is the echo of the player's own input: the early return skips the
  system-error message (fixed prefix, then the failure's message) that the failure
  handling sends to the player for a failure of another kind.
\<close>

theorem game_over_skips_error_notice:
  assumes "type data = Some kind" and "payload data = Some pl" and "input data = Some inp"
    and "\<not> isIdVirtualPlayer env pid"
    and "playAction env (engine w) gid pid data = (s1, Inl e)"
    and "isWordNotInDictionaryError e"
    and "isGameOver env (afterDelay env (INVALID_WORD_TIMEOUT env) s1) gid pid = Inr True"
    and "\<not> isWordNotInDictionaryError other"
  shows "snd (handlePlayAction (Suc n) env gid pid data w) = Some (Inr ())
       \<and> filter isEmitToSocket
           (drop (length (log w)) (log (fst (handlePlayAction (Suc n) env gid pid data w))))
           = echo gid pid inp
       \<and> handleError env other (Some inp) pid gid w =
           (w\<lparr>log := log w @
               [EmitToSocket pid
                  \<lparr>content = COMMAND_IS_INVALID env (Some inp) @ message other,
                   senderId = SYSTEM_ERROR_ID env, gameId = gid, isClickable = None\<rparr>]\<rparr>,
            Inr ())"
  using assms
  by (simp add: tryBlock_engine_failure handleError_game_over handleError_other
        echo_def emit_def)

theorem game_over_skips_error_notice_witness:
  "snd (handlePlayAction (Suc 0) finishedEnv ''g1'' ''alice'' demoAction demoWorld) = Some (Inr ())
   \<and> filter isEmitToSocket
       (drop (length (log demoWorld))
          (log (fst (handlePlayAction (Suc 0) finishedEnv ''g1'' ''alice'' demoAction demoWorld))))
       = echo ''g1'' ''alice'' ''!placer h8h xyz''
   \<and> handleError finishedEnv noGame (Some ''!placer h8h xyz'') ''alice'' ''g1'' demoWorld =
       (demoWorld\<lparr>log := log demoWorld @
          [EmitToSocket ''alice''
             \<lparr>content = COMMAND_IS_INVALID finishedEnv (Some ''!placer h8h xyz'') @ message noGame,
              senderId = SYSTEM_ERROR_ID finishedEnv, gameId = ''g1'', isClickable = None\<rparr>]\<rparr>,
        Inr ())"
proof -
  have h1: "type demoAction = Some PLAY" and h2: "payload demoAction = Some [(''word'', ''xyz'')]"
    and h3: "input demoAction = Some ''!placer h8h xyz''"
    by (simp_all add: demoAction_def)
  have h4: "\<not> isIdVirtualPlayer finishedEnv ''alice''"
    by (simp add: finishedEnv_def demoEnv_def)
  have h5: "playAction finishedEnv (engine demoWorld) ''g1'' ''alice'' demoAction
              = (Some 1, Inl invalidWord)"
    by (simp add: finishedEnv_def demoEnv_def demoWorld_def demoAction_def)
  have h7: "isGameOver finishedEnv
              (afterDelay finishedEnv (INVALID_WORD_TIMEOUT finishedEnv) (Some 1))
              ''g1'' ''alice'' = Inr True"
    by (simp add: finishedEnv_def)
  have h8: "\<not> isWordNotInDictionaryError noGame"
    by (simp add: isWordNotInDictionaryError_def noGame_def)
  show ?thesis
    by (rule game_over_skips_error_notice [OF h1 h2 h3 h4 h5 invalidWord_rejected h7 h8])
qed

text \<open>
  C10. For an action with kind and payload whose raw input is absent, the dispatch
  does not throw the 400 validation failure. Reading the length of the absent input
  throws inside the guarded block, before the engine is called, and that failure takes
  the path of an engine failure: for a virtual player it is thrown again, with the same
  message and a status that is not 400; for a human player the dispatch returns
  normally after one system-error message to the player.
\<close>

theorem absent_input_takes_failure_path:
  assumes "type data = Some kind" and "payload data = Some pl" and "input data = None"
  shows "handlePlayAction (Suc n) env gid pid data w =
           (if isIdVirtualPlayer env pid
            then (w, Some (Inl \<lparr>message = message undefinedLengthError,
                                 status = status undefinedLengthError\<rparr>))
            else (w\<lparr>log := log w @
                     [EmitToSocket pid
                        \<lparr>content = COMMAND_IS_INVALID env None @ message undefinedLengthError,
                         senderId = SYSTEM_ERROR_ID env, gameId = gid, isClickable = None\<rparr>]\<rparr>,
                  Some (Inr ())))
       \<and> status undefinedLengthError \<noteq> Some BAD_REQUEST"
  using assms
  by (simp add: tryBlock_absent_input handleError_other undefinedLengthError_other emit_def)
    (simp add: undefinedLengthError_def)

theorem absent_input_takes_failure_path_witness:
  "handlePlayAction (Suc 0) demoEnv ''g1'' ''alice'' (demoAction\<lparr>input := None\<rparr>) demoWorld =
     (demoWorld\<lparr>log := log demoWorld @
        [EmitToSocket ''alice''
           \<lparr>content = COMMAND_IS_INVALID demoEnv None @ message undefinedLengthError,
            senderId = SYSTEM_ERROR_ID demoEnv, gameId = ''g1'', isClickable = None\<rparr>]\<rparr>,
      Some (Inr ()))
   \<and> handlePlayAction (Suc 0) demoEnv ''g1'' ''bot'' (demoAction\<lparr>input := None\<rparr>) demoWorld =
     (demoWorld, Some (Inl \<lparr>message = message undefinedLengthError, status = None\<rparr>))"
proof -
  have h1: "type (demoAction\<lparr>input := None\<rparr>) = Some PLAY"
    and h2: "payload (demoAction\<lparr>input := None\<rparr>) = Some [(''word'', ''xyz'')]"
    and h3: "input (demoAction\<lparr>input := None\<rparr>) = None"
    by (simp_all add: demoAction_def)
  have human: "\<not> isIdVirtualPlayer demoEnv ''alice''" and bot: "isIdVirtualPlayer demoEnv ''bot''"
    by (simp_all add: demoEnv_def)
  from absent_input_takes_failure_path [OF h1 h2 h3, of 0 demoEnv "''g1''" "''alice''" demoWorld]
    absent_input_takes_failure_path [OF h1 h2 h3, of 0 demoEnv "''g1''" "''bot''" demoWorld]
    human bot
  show ?thesis
    by (simp add: undefinedLengthError_def)
qed

end
